theory Spec2Isabelle
  imports Complex_Main
begin

section \<open>Vectors\<close>

text \<open>
  \<open>vector3d\<close> is the three-component vector of doubles that Player.cpp and LuaBody.cpp
  compute with. A double is modelled as a real number: rounding, infinities and NaN are
  outside the model. The components are named \<open>vx\<close>, \<open>vy\<close>, \<open>vz\<close> (the source's
  \<open>x\<close>, \<open>y\<close>, \<open>z\<close>) so that the field names do not capture variables.
\<close>

record vector3d =
  vx :: real
  vy :: real
  vz :: real

text \<open>\<open>vector3d(0, 0, 0)\<close>.\<close>

definition vector3d_zero :: vector3d where
  "vector3d_zero = \<lparr>vx = 0, vy = 0, vz = 0\<rparr>"

text \<open>\<open>a.ExactlyEqual(b)\<close>: the three components compared with \<open>==\<close>.\<close>

definition ExactlyEqual :: "vector3d \<Rightarrow> vector3d \<Rightarrow> bool" where
  "ExactlyEqual a b = (vx a = vx b \<and> vy a = vy b \<and> vz a = vz b)"

text \<open>\<open>a - b\<close> on vectors.\<close>

definition vector3d_minus :: "vector3d \<Rightarrow> vector3d \<Rightarrow> vector3d" where
  "vector3d_minus a b = \<lparr>vx = vx a - vx b, vy = vy a - vy b, vz = vz a - vz b\<rparr>"

text \<open>\<open>a.Length()\<close> and \<open>a.Normalized()\<close>.\<close>

definition Length :: "vector3d \<Rightarrow> real" where
  "Length a = sqrt (vx a * vx a + vy a * vy a + vz a * vz a)"

definition Normalized :: "vector3d \<Rightarrow> vector3d" where
  "Normalized a =
     (let l = 1 / sqrt (vx a * vx a + vy a * vy a + vz a * vz a)
      in \<lparr>vx = vx a * l, vy = vy a * l, vz = vz a * l\<rparr>)"

text \<open>\<open>is_zero_exact(x)\<close>: comparison of a double with 0.\<close>

definition is_zero_exact :: "real \<Rightarrow> bool" where
  "is_zero_exact a = (a = 0)"

text \<open>
  The conversion of a double to \<open>int\<close> that a \<open>return\<close> in a function of type \<open>int\<close>
  performs: the fractional part is discarded. (A value outside the range of \<open>int\<close> has no
  defined conversion in C++; the model keeps the mathematical integer.)
\<close>

definition double_to_int :: "real \<Rightarrow> int" where
  "double_to_int r = (if 0 \<le> r then \<lfloor>r\<rfloor> else \<lceil>r\<rceil>)"

section \<open>Collaborators of the player: frames, bodies, orbits, the transfer planner\<close>

text \<open>
  Frame.h, galaxy/SystemBody.h, Orbit.h and SystemView.h are not among the sources. Each
  object of these classes is a record of the answers that the member functions called in
  Player.cpp give.
\<close>

type_synonym FrameId = nat

record SystemBody =
  GetMass :: real

record Frame =
  IsRotFrame :: bool
  GetNonRotFrame :: FrameId
  GetSystemBody :: "SystemBody option"

text \<open>
  \<open>Frame::GetFrame(id)\<close> looks a frame up by its identifier. The sources dereference
  its result unchecked (Player.cpp and every use in LuaBody.cpp): an identifier held by a
  body or returned by \<open>GetNonRotFrame\<close> resolves. The arena of frames is therefore a total
  function; \<open>GetSystemBody\<close>, which the sources do test for null, is an option.
\<close>

type_synonym Frames = "FrameId \<Rightarrow> Frame"

record Orbit =
  GetSemiMajorAxis :: real
  OrbitalVelocityAtTime :: "real \<Rightarrow> real \<Rightarrow> vector3d"
  OrbitalTimeAtPos :: "vector3d \<Rightarrow> real \<Rightarrow> real"

text \<open>\<open>Pi::planner\<close>, the transfer planner of the system view.\<close>

record TransferPlanner =
  GetOffsetVel :: vector3d
  GetStartTime :: real
  GetVel :: vector3d
  GetPosition :: vector3d

section \<open>The ship and the player\<close>

text \<open>
  A body is referred to by its address. Of the object behind the address the sources read
  its class (\<open>IsType\<close>), for a ship its hyperspace cloud, and for a terrain body its
  maximal feature radius and its terrain height in a direction.
\<close>

type_synonym BodyPtr = nat

text \<open>The enumerators of \<open>ObjectType\<close> that the sources name.\<close>

datatype ObjectType =
  BODY | MODELBODY | DYNAMICBODY | SHIP | PLAYER | SPACESTATION | TERRAINBODY
  | PLANET | STAR | CARGOBODY | MISSILE | HYPERSPACECLOUD

record Body =
  addr :: BodyPtr
  IsType :: "ObjectType \<Rightarrow> bool"
  GetHyperspaceCloud :: "BodyPtr option"
  GetMaxFeatureRadius :: real
  GetTerrainHeight :: "vector3d \<Rightarrow> real"

text \<open>
  Of the flight control states the sources name \<open>CONTROL_MANUAL\<close>; the others are
  numbered.
\<close>

datatype FlightControlState = CONTROL_MANUAL | CONTROL_OTHER nat

text \<open>
  Modelled from the spec: ship/PlayerShipController.h is not among the sources. The
  controller holds the three weak target references (none is the null pointer) and the
  flight control state; each setter stores its argument. \<open>SetCombatTarget\<close> has the
  second parameter \<open>setSpeedTo\<close> declared in Player.h, which makes the combat target the
  set-speed target too.
\<close>

record PlayerShipController =
  m_navTarget :: "BodyPtr option"
  m_combatTarget :: "BodyPtr option"
  m_setSpeedTarget :: "BodyPtr option"
  m_flightControlState :: FlightControlState

record HyperdriveSoundsTable =
  jump_sound :: string
  warmup_sound :: string
  abort_sound :: string

datatype HyperjumpState = IDLE | WARMUP | COMMITTED | TRANSIT | ARRIVING | ABORTED

datatype TransitionKind = WARMUP_STARTED | COMMITTED_EVENT | ABORTED_EVENT | ARRIVED

type_synonym SystemPath = nat

text \<open>
  \<open>m_hyperspace\<close>: the hyperjump session of the ship. Player.cpp reads its \<open>sounds\<close>; the
  other fields are those of the spec's HyperjumpSession.
\<close>

record HyperspaceSession =
  sounds :: HyperdriveSoundsTable
  currentState :: HyperjumpState
  destinationSystemId :: SystemPath
  warmupDuration :: int
  transitDuration :: real

text \<open>
  The state of the base class Ship other than its controller: the frame the body is in,
  the orbit that \<open>ComputeOrbit()\<close> returns in this state, the hyperjump session, the
  thruster state, and the transition events notified so far.
\<close>

record Ship =
  GetFrame :: FrameId
  ComputeOrbit :: Orbit
  m_hyperspace :: HyperspaceSession
  m_thrusters :: vector3d
  m_angThrusters :: vector3d
  notified :: "TransitionKind list"

text \<open>
  The player: the state of the ship, the controller behind \<open>m_controller\<close> (a member that
  the player inherits from Ship and Player.cpp casts to PlayerShipController), and what
  the player asks of the sound system, the game and the sector view, recorded in order.
\<close>

datatype Effect = Play string | WantHyperspace | ResetHyperspaceTarget

record Player =
  ship :: Ship
  m_controller :: PlayerShipController
  effects :: "Effect list"

section \<open>Maneuver planning (Player.cpp)\<close>

definition GetManeuverTime :: "TransferPlanner \<Rightarrow> int" where
  "GetManeuverTime planner =
     (if ExactlyEqual (GetOffsetVel planner) vector3d_zero then 0
      else double_to_int (GetStartTime planner))"

definition GetManeuverVelocity :: "Frames \<Rightarrow> TransferPlanner \<Rightarrow> Player \<Rightarrow> vector3d" where
  "GetManeuverVelocity frames planner p =
     (let frame0 = frames (GetFrame (ship p));
          frame = (if IsRotFrame frame0 then frames (GetNonRotFrame frame0) else frame0);
          systemBody = GetSystemBody frame
      in if ExactlyEqual (GetOffsetVel planner) vector3d_zero then vector3d_zero
         else case systemBody of
           Some sb \<Rightarrow>
             (let playerOrbit = ComputeOrbit (ship p)
              in if \<not> is_zero_exact (GetSemiMajorAxis playerOrbit) then
                   (let mass = GetMass sb
                    in vector3d_minus (GetVel planner)
                         (OrbitalVelocityAtTime playerOrbit mass
                            (OrbitalTimeAtPos playerOrbit (GetPosition planner) mass)))
                 else vector3d_zero)
         | None \<Rightarrow> vector3d_zero)"

section \<open>Targets (Player.cpp, "temporary targeting stuff")\<close>

text \<open>
  The accessors of Player forward to the PlayerShipController behind \<open>m_controller\<close>.
\<close>

definition GetNavTarget :: "Player \<Rightarrow> BodyPtr option" where
  "GetNavTarget p = m_navTarget (m_controller p)"

definition GetCombatTarget :: "Player \<Rightarrow> BodyPtr option" where
  "GetCombatTarget p = m_combatTarget (m_controller p)"

definition GetSetSpeedTarget :: "Player \<Rightarrow> BodyPtr option" where
  "GetSetSpeedTarget p = m_setSpeedTarget (m_controller p)"

definition SetNavTarget :: "BodyPtr option \<Rightarrow> Player \<Rightarrow> Player" where
  "SetNavTarget target p = p\<lparr>m_controller := (m_controller p)\<lparr>m_navTarget := target\<rparr>\<rparr>"

definition SetCombatTarget :: "BodyPtr option \<Rightarrow> bool \<Rightarrow> Player \<Rightarrow> Player" where
  "SetCombatTarget target setSpeedTo p =
     p\<lparr>m_controller := (m_controller p)
          \<lparr>m_combatTarget := target,
           m_setSpeedTarget := (if setSpeedTo then target else m_setSpeedTarget (m_controller p))\<rparr>\<rparr>"

definition SetSetSpeedTarget :: "BodyPtr option \<Rightarrow> Player \<Rightarrow> Player" where
  "SetSetSpeedTarget target p =
     p\<lparr>m_controller := (m_controller p)\<lparr>m_setSpeedTarget := target\<rparr>\<rparr>"

definition SetFlightControlState :: "FlightControlState \<Rightarrow> Player \<Rightarrow> Player" where
  "SetFlightControlState s p =
     p\<lparr>m_controller := (m_controller p)\<lparr>m_flightControlState := s\<rparr>\<rparr>"

text \<open>
  Modelled from the spec: \<open>ClearThrusterState\<close> is inherited from Ship, outside the
  sources; it puts the linear and the angular thrusters back to neutral.
\<close>

definition ClearThrusterState :: "Player \<Rightarrow> Player" where
  "ClearThrusterState p =
     p\<lparr>ship := (ship p)\<lparr>m_thrusters := vector3d_zero, m_angThrusters := vector3d_zero\<rparr>\<rparr>"

definition emit :: "Effect \<Rightarrow> Player \<Rightarrow> Player" where
  "emit e p = p\<lparr>effects := effects p @ [e]\<rparr>"

section \<open>Removal of a body (Player.cpp)\<close>

text \<open>
  \<open>Player::NotifyRemoved\<close>. The last statement calls \<open>Ship::NotifyRemoved\<close>, which is
  outside the sources: it is the parameter \<open>Ship_NotifyRemoved\<close>, acting on the state of
  the ship.
\<close>

definition NotifyRemoved :: "(Body \<Rightarrow> Ship \<Rightarrow> Ship) \<Rightarrow> Body \<Rightarrow> Player \<Rightarrow> Player" where
  "NotifyRemoved Ship_NotifyRemoved removedBody p0 =
     (let p1 = (if GetNavTarget p0 = Some (addr removedBody) then SetNavTarget None p0 else p0);
          p2 = (if GetCombatTarget p1 = Some (addr removedBody) then
                  (let q = SetCombatTarget None False p1
                   in if GetNavTarget q = None \<and> IsType removedBody SHIP
                      then SetNavTarget (GetHyperspaceCloud removedBody) q else q)
                else p1);
          p3 = (if GetSetSpeedTarget p2 = Some (addr removedBody)
                then SetSetSpeedTarget None p2 else p2)
      in p3\<lparr>ship := Ship_NotifyRemoved removedBody (ship p3)\<rparr>)"

section \<open>Hyperspace (Player.cpp)\<close>

definition OnEnterHyperspace :: "Player \<Rightarrow> Player" where
  "OnEnterHyperspace p0 =
     (let p1 = emit (Play (jump_sound (sounds (m_hyperspace (ship p0))))) p0;
          p2 = SetNavTarget None p1;
          p3 = SetCombatTarget None False p2;
          p4 = SetSetSpeedTarget None p3;
          p5 = SetFlightControlState CONTROL_MANUAL p4;
          p6 = ClearThrusterState p5
      in emit WantHyperspace p6)"

definition OnEnterSystem :: "Player \<Rightarrow> Player" where
  "OnEnterSystem p0 =
     (let p1 = SetFlightControlState CONTROL_MANUAL p0
      in emit ResetHyperspaceTarget p1)"

text \<open>
  \<open>Ship::HyperjumpStatus\<close>: the sources name \<open>HYPERJUMP_OK\<close>; a rejection carries its
  reason, after section 4.4 of the spec.
\<close>

datatype HyperjumpStatus = HYPERJUMP_OK | HYPERJUMP_REJECTED string

text \<open>The contract violation of section 7 of the spec, which ends the call.\<close>

datatype error = PreconditionViolation

text \<open>
  An eligibility check looks at the ship and answers with the reason of its rejection, or
  with nothing when it passes.
\<close>

type_synonym EligibilityCheck = "Ship \<Rightarrow> string option"

text \<open>The checks run in order; the first rejection is the answer.\<close>

fun run_checks :: "EligibilityCheck list \<Rightarrow> Ship \<Rightarrow> string option" where
  "run_checks [] s = None"
| "run_checks (c # cs) s = (case c s of Some reason \<Rightarrow> Some reason | None \<Rightarrow> run_checks cs s)"

text \<open>
  Modelled from the spec: \<open>Ship::InitiateHyperjumpTo\<close> (Ship.cpp) is outside the sources;
  only its caller \<open>Player::InitiateHyperjumpTo\<close> is there. After section 4.4: initiation
  is valid only from IDLE, anything else is a precondition violation; the eligibility checks
  run in order and the first that fails rejects the call with its reason, the state staying
  IDLE and no target cleared; on success the session is WARMUP with the request recorded,
  the navigation, combat and set-speed targets of the vehicle are cleared, the thrusters
  are put to neutral, and WARMUP_STARTED is notified. The function runs on the whole
  vehicle, since the controller that holds the targets is a member of Ship.
\<close>

definition Ship_InitiateHyperjumpTo ::
  "SystemPath \<Rightarrow> int \<Rightarrow> real \<Rightarrow> HyperdriveSoundsTable \<Rightarrow> EligibilityCheck list \<Rightarrow> Player
     \<Rightarrow> error + (HyperjumpStatus \<times> Player)" where
  "Ship_InitiateHyperjumpTo dest warmup_time duration snds checks p0 =
     (if currentState (m_hyperspace (ship p0)) \<noteq> IDLE then Inl PreconditionViolation
      else case run_checks checks (ship p0) of
        Some reason \<Rightarrow> Inr (HYPERJUMP_REJECTED reason, p0)
      | None \<Rightarrow>
          (let p1 = p0\<lparr>ship := (ship p0)
                       \<lparr>m_hyperspace :=
                          \<lparr>sounds = snds, currentState = WARMUP, destinationSystemId = dest,
                           warmupDuration = warmup_time, transitDuration = duration\<rparr>,
                        notified := notified (ship p0) @ [WARMUP_STARTED]\<rparr>\<rparr>;
               p2 = SetNavTarget None p1;
               p3 = SetCombatTarget None False p2;
               p4 = SetSetSpeedTarget None p3
           in Inr (HYPERJUMP_OK, ClearThrusterState p4)))"

text \<open>
  Modelled from the spec: \<open>Ship::AbortHyperjump\<close> (Ship.cpp) is outside the sources.
  After section 4.4: abort is valid from WARMUP only, anything else is a precondition
  violation; the session goes to ABORTED, which returns to IDLE at once, ABORTED is
  notified, and the frame of the vehicle is not touched.
\<close>

definition Ship_AbortHyperjump :: "Ship \<Rightarrow> error + Ship" where
  "Ship_AbortHyperjump s =
     (if currentState (m_hyperspace s) \<noteq> WARMUP then Inl PreconditionViolation
      else
        (let aborted = s\<lparr>m_hyperspace := (m_hyperspace s)\<lparr>currentState := ABORTED\<rparr>,
                         notified := notified s @ [ABORTED_EVENT]\<rparr>
         in Inr (aborted\<lparr>m_hyperspace := (m_hyperspace aborted)\<lparr>currentState := IDLE\<rparr>\<rparr>)))"

text \<open>
  \<open>Player::InitiateHyperjumpTo\<close>: the status of the base class is returned, after the
  warm-up sound when it is \<open>HYPERJUMP_OK\<close>. A precondition violation of the base class
  passes through the player's function, which catches nothing.
\<close>

definition InitiateHyperjumpTo ::
  "SystemPath \<Rightarrow> int \<Rightarrow> real \<Rightarrow> HyperdriveSoundsTable \<Rightarrow> EligibilityCheck list \<Rightarrow> Player
     \<Rightarrow> error + (HyperjumpStatus \<times> Player)" where
  "InitiateHyperjumpTo dest warmup_time duration snds checks p =
     (case Ship_InitiateHyperjumpTo dest warmup_time duration snds checks p of
        Inl e \<Rightarrow> Inl e
      | Inr (status, p1) \<Rightarrow>
          if status = HYPERJUMP_OK
          then Inr (status, emit (Play (warmup_sound (sounds (m_hyperspace (ship p1))))) p1)
          else Inr (status, p1))"

text \<open>\<open>Player::AbortHyperjump\<close>: the abort sound, then the base class.\<close>

definition AbortHyperjump :: "Player \<Rightarrow> error + Player" where
  "AbortHyperjump p0 =
     (let p1 = emit (Play (abort_sound (sounds (m_hyperspace (ship p0))))) p0
      in case Ship_AbortHyperjump (ship p1) of
           Inl e \<Rightarrow> Inl e
         | Inr s \<Rightarrow> Inr (p1\<lparr>ship := s\<rparr>))"

text \<open>
  Modelled from the spec: the arrival step, which calls the protected hook
  \<open>Player::OnEnterSystem\<close>, is outside the sources. After section 4.4: arrival is driven
  from inside and exists only in ARRIVING; the session goes to IDLE, the vehicle is attached
  to the root frame of the destination system, its navigation, combat and set-speed targets
  are cleared again, and ARRIVED is notified. The hook of the player runs at the end of the
  step.
\<close>

definition Arrival :: "FrameId \<Rightarrow> Player \<Rightarrow> Player option" where
  "Arrival destinationRootFrame p0 =
     (if currentState (m_hyperspace (ship p0)) \<noteq> ARRIVING then None
      else
        (let p1 = p0\<lparr>ship := (ship p0)
                     \<lparr>GetFrame := destinationRootFrame,
                      m_hyperspace := (m_hyperspace (ship p0))\<lparr>currentState := IDLE\<rparr>,
                      notified := notified (ship p0) @ [ARRIVED]\<rparr>\<rparr>;
             p2 = SetNavTarget None p1;
             p3 = SetCombatTarget None False p2;
             p4 = SetSetSpeedTarget None p3
         in Some (OnEnterSystem p4)))"

section \<open>The Lua binding of bodies (lua/LuaBody.cpp)\<close>

text \<open>
  \<open>l_body_is_more_important_than\<close>: the two arguments are compared as pointers, and only
  distinct bodies reach \<open>PiGui::first_body_is_more_important_than\<close>, which is declared
  \<open>extern\<close> and is the parameter \<open>first_body_is_more_important_than\<close>.
\<close>

definition l_body_is_more_important_than :: "(Body \<Rightarrow> Body \<Rightarrow> bool) \<Rightarrow> Body \<Rightarrow> Body \<Rightarrow> bool" where
  "l_body_is_more_important_than first_body_is_more_important_than body other =
     (if addr body = addr other then False
      else first_body_is_more_important_than body other)"

text \<open>
  \<open>l_body_get_altitude_rel_to\<close>: \<open>GetPositionRelTo\<close> is the position of the player
  relative to the other body, computed outside the sources; the other body may be the null
  pointer.
\<close>

definition l_body_get_altitude_rel_to :: "(Body option \<Rightarrow> vector3d) \<Rightarrow> Body option \<Rightarrow> real" where
  "l_body_get_altitude_rel_to GetPositionRelTo other =
     (let pos = GetPositionRelTo other;
          center_dist = Length pos
      in case other of
           None \<Rightarrow> center_dist
         | Some terrain \<Rightarrow>
             if IsType terrain TERRAINBODY then
               (let surface_pos = Normalized pos;
                    radius = (if center_dist \<le> 3.0 * GetMaxFeatureRadius terrain
                              then GetTerrainHeight terrain surface_pos else 0.0);
                    altitude = center_dist - radius
                in if altitude < 0 then 0 else altitude)
             else center_dist)"

section \<open>Concrete states\<close>

text \<open>
  A small system: frame 0 is the root frame without a system body, frame 1 the non-rotating
  frame of a planet of mass 4, frame 2 the rotating frame of its surface.
\<close>

definition frames_ex :: Frames where
  "frames_ex i =
     (if i = 1 then \<lparr>IsRotFrame = False, GetNonRotFrame = 1, GetSystemBody = Some \<lparr>GetMass = 4\<rparr>\<rparr>
      else if i = 2 then \<lparr>IsRotFrame = True, GetNonRotFrame = 1, GetSystemBody = Some \<lparr>GetMass = 9\<rparr>\<rparr>
      else \<lparr>IsRotFrame = False, GetNonRotFrame = 0, GetSystemBody = None\<rparr>)"

definition orbit_ex :: Orbit where
  "orbit_ex =
     \<lparr>GetSemiMajorAxis = 2,
      OrbitalVelocityAtTime = (\<lambda>mass t. \<lparr>vx = mass, vy = t, vz = 0\<rparr>),
      OrbitalTimeAtPos = (\<lambda>pos mass. vx pos + mass)\<rparr>"

definition orbit_degenerate :: Orbit where
  "orbit_degenerate = orbit_ex\<lparr>GetSemiMajorAxis := 0\<rparr>"

definition planner_idle :: TransferPlanner where
  "planner_idle =
     \<lparr>GetOffsetVel = vector3d_zero, GetStartTime = 7,
      GetVel = \<lparr>vx = 10, vy = 20, vz = 30\<rparr>, GetPosition = \<lparr>vx = 1, vy = 2, vz = 3\<rparr>\<rparr>"

definition planner_ex :: TransferPlanner where
  "planner_ex = planner_idle\<lparr>GetOffsetVel := \<lparr>vx = 1, vy = 0, vz = 0\<rparr>, GetStartTime := 5\<rparr>"

definition sounds_ex :: HyperdriveSoundsTable where
  "sounds_ex = \<lparr>jump_sound = ''jump'', warmup_sound = ''warmup'', abort_sound = ''abort''\<rparr>"

definition ship_ex :: Ship where
  "ship_ex =
     \<lparr>GetFrame = 2, ComputeOrbit = orbit_ex,
      m_hyperspace = \<lparr>sounds = sounds_ex, currentState = IDLE, destinationSystemId = 0,
                      warmupDuration = 0, transitDuration = 0\<rparr>,
      m_thrusters = \<lparr>vx = 1, vy = 0, vz = 0\<rparr>, m_angThrusters = vector3d_zero,
      notified = []\<rparr>"

text \<open>The player in the rotating frame 2, with the bodies 3, 4 and 4 as its targets.\<close>

definition player_ex :: Player where
  "player_ex =
     \<lparr>ship = ship_ex,
      m_controller = \<lparr>m_navTarget = Some 3, m_combatTarget = Some 4, m_setSpeedTarget = Some 4,
                      m_flightControlState = CONTROL_OTHER 1\<rparr>,
      effects = []\<rparr>"

definition player_nonrot :: Player where
  "player_nonrot = player_ex\<lparr>ship := ship_ex\<lparr>GetFrame := 1\<rparr>\<rparr>"

definition player_degenerate :: Player where
  "player_degenerate = player_ex\<lparr>ship := ship_ex\<lparr>ComputeOrbit := orbit_degenerate\<rparr>\<rparr>"

definition player_in :: "HyperjumpState \<Rightarrow> Player" where
  "player_in st =
     player_ex\<lparr>ship := ship_ex\<lparr>m_hyperspace := (m_hyperspace ship_ex)\<lparr>currentState := st\<rparr>\<rparr>\<rparr>"

text \<open>The ship at address 4, whose hyperspace cloud is the body at address 9.\<close>

definition body_ship :: Body where
  "body_ship =
     \<lparr>addr = 4, IsType = (\<lambda>t. t \<in> set [BODY, MODELBODY, DYNAMICBODY, SHIP]),
      GetHyperspaceCloud = Some 9, GetMaxFeatureRadius = 0, GetTerrainHeight = (\<lambda>d. 0)\<rparr>"

definition player_combat :: Player where
  "player_combat = player_ex\<lparr>m_controller := (m_controller player_ex)\<lparr>m_navTarget := None\<rparr>\<rparr>"

section \<open>Properties\<close>

lemma ExactlyEqual_iff: "ExactlyEqual (a::vector3d) b \<longleftrightarrow> a = b"
  by (cases a, cases b) (simp add: ExactlyEqual_def)

lemmas target_defs =
  GetNavTarget_def GetCombatTarget_def GetSetSpeedTarget_def SetNavTarget_def
  SetCombatTarget_def SetSetSpeedTarget_def SetFlightControlState_def
  ClearThrusterState_def emit_def

text \<open>
  C1. Whatever the frames, the orbit and the rest of the state of the vehicle are: when the
  velocity offset stored in the planner is exactly the zero vector, \<open>GetManeuverTime\<close>
  returns 0 and \<open>GetManeuverVelocity\<close> returns the zero vector.
\<close>

theorem maneuver_zero_offset:
  assumes "GetOffsetVel planner = vector3d_zero"
  shows "GetManeuverTime planner = 0 \<and> GetManeuverVelocity frames planner p = vector3d_zero"
  using assms by (simp add: GetManeuverTime_def GetManeuverVelocity_def ExactlyEqual_iff)

theorem maneuver_zero_offset_witness:
  "GetOffsetVel planner_idle = vector3d_zero \<and> GetManeuverTime planner_idle = 0
   \<and> GetManeuverVelocity frames_ex planner_idle player_ex = vector3d_zero"
proof -
  have h: "GetOffsetVel planner_idle = vector3d_zero"
    by (simp add: planner_idle_def)
  show ?thesis
    using h maneuver_zero_offset [OF h, of frames_ex player_ex] by simp
qed

text \<open>
  The velocity that the planner's target and the orbit imply, for a given parent mass:
  the target velocity minus the orbital velocity at the time at which the orbit reaches the
  target position.
\<close>

lemma maneuver_velocity_unfold:
  assumes "GetOffsetVel planner \<noteq> vector3d_zero"
    and "GetSystemBody (if IsRotFrame (frames (GetFrame (ship p)))
                        then frames (GetNonRotFrame (frames (GetFrame (ship p))))
                        else frames (GetFrame (ship p))) = Some sb"
  shows "GetManeuverVelocity frames planner p =
           (if GetSemiMajorAxis (ComputeOrbit (ship p)) \<noteq> 0
            then vector3d_minus (GetVel planner)
                   (OrbitalVelocityAtTime (ComputeOrbit (ship p)) (GetMass sb)
                      (OrbitalTimeAtPos (ComputeOrbit (ship p)) (GetPosition planner) (GetMass sb)))
            else vector3d_zero)"
proof -
  have "\<not> ExactlyEqual (GetOffsetVel planner) vector3d_zero"
    using assms(1) by (simp add: ExactlyEqual_iff)
  then show ?thesis
    using assms(2)
    by (simp add: GetManeuverVelocity_def Let_def is_zero_exact_def split: if_splits)
qed

text \<open>
  C4. With a non-zero velocity offset and a non-degenerate osculating orbit (the inertial
  frame of the vehicle has a system body to orbit, and the semi-major axis of the computed
  orbit is not zero), the maneuver velocity is the target velocity stored in the planner
  minus the orbital velocity at the time of flight from the current orbit to the target
  position stored in the planner.
\<close>

theorem maneuver_velocity_formula:
  assumes "GetOffsetVel planner \<noteq> vector3d_zero"
    and "GetSystemBody (if IsRotFrame (frames (GetFrame (ship p)))
                        then frames (GetNonRotFrame (frames (GetFrame (ship p))))
                        else frames (GetFrame (ship p))) = Some sb"
    and "GetSemiMajorAxis (ComputeOrbit (ship p)) \<noteq> 0"
    and "orbit = ComputeOrbit (ship p)"
  shows "GetManeuverVelocity frames planner p =
           vector3d_minus (GetVel planner)
             (OrbitalVelocityAtTime orbit (GetMass sb)
                (OrbitalTimeAtPos orbit (GetPosition planner) (GetMass sb)))"
  using maneuver_velocity_unfold [OF assms(1) assms(2)] assms(3) assms(4) by simp

theorem maneuver_velocity_formula_witness:
  "GetOffsetVel planner_ex \<noteq> vector3d_zero
   \<and> GetSemiMajorAxis (ComputeOrbit (ship player_ex)) \<noteq> 0
   \<and> GetManeuverVelocity frames_ex planner_ex player_ex = \<lparr>vx = 6, vy = 15, vz = 30\<rparr>"
proof -
  have h1: "GetOffsetVel planner_ex \<noteq> vector3d_zero"
    by (simp add: planner_ex_def planner_idle_def vector3d_zero_def)
  have h2: "GetSystemBody (if IsRotFrame (frames_ex (GetFrame (ship player_ex)))
                           then frames_ex (GetNonRotFrame (frames_ex (GetFrame (ship player_ex))))
                           else frames_ex (GetFrame (ship player_ex))) = Some \<lparr>GetMass = 4\<rparr>"
    by (simp add: frames_ex_def player_ex_def ship_ex_def)
  have h3: "GetSemiMajorAxis (ComputeOrbit (ship player_ex)) \<noteq> 0"
    by (simp add: player_ex_def ship_ex_def orbit_ex_def)
  have h4: "orbit_ex = ComputeOrbit (ship player_ex)"
    by (simp add: player_ex_def ship_ex_def)
  show ?thesis
    using h1 h3 maneuver_velocity_formula [OF h1 h2 h3 h4]
    by (simp add: orbit_ex_def planner_ex_def planner_idle_def vector3d_minus_def)
qed

text \<open>
  C5, as the claim states it, fails: with a non-zero offset and an orbit whose semi-major
  axis is zero the maneuver velocity is the zero vector, but \<open>GetManeuverTime\<close> returns
  the start time of the planner, here 5.
\<close>

theorem maneuver_degenerate_time_counterexample:
  "GetOffsetVel planner_ex \<noteq> vector3d_zero
   \<and> is_zero_exact (GetSemiMajorAxis (ComputeOrbit (ship player_degenerate)))
   \<and> GetManeuverVelocity frames_ex planner_ex player_degenerate = vector3d_zero
   \<and> GetManeuverTime planner_ex = 5
   \<and> GetManeuverTime planner_ex \<noteq> 0"
  by (simp add: GetManeuverTime_def GetManeuverVelocity_def ExactlyEqual_def is_zero_exact_def
      double_to_int_def planner_ex_def planner_idle_def vector3d_zero_def player_degenerate_def
      player_ex_def ship_ex_def orbit_degenerate_def orbit_ex_def frames_ex_def)

text \<open>
  C5, amended. With a non-zero offset and an osculating orbit whose semi-major axis is
  exactly zero, \<open>GetManeuverVelocity\<close> returns the zero vector. \<open>GetManeuverTime\<close> does
  not look at the orbit: it returns the start time stored in the planner, converted to
  \<open>int\<close>.
\<close>

theorem maneuver_degenerate_orbit:
  assumes "GetOffsetVel planner \<noteq> vector3d_zero"
    and "is_zero_exact (GetSemiMajorAxis (ComputeOrbit (ship p)))"
  shows "GetManeuverVelocity frames planner p = vector3d_zero
         \<and> GetManeuverTime planner = double_to_int (GetStartTime planner)"
proof -
  have "\<not> ExactlyEqual (GetOffsetVel planner) vector3d_zero"
    using assms(1) by (simp add: ExactlyEqual_iff)
  then show ?thesis
    using assms(2)
    by (simp add: GetManeuverVelocity_def GetManeuverTime_def Let_def split: option.splits)
qed

theorem maneuver_degenerate_orbit_witness:
  "GetOffsetVel planner_ex \<noteq> vector3d_zero
   \<and> is_zero_exact (GetSemiMajorAxis (ComputeOrbit (ship player_degenerate)))
   \<and> GetManeuverVelocity frames_ex planner_ex player_degenerate = vector3d_zero
   \<and> GetManeuverTime planner_ex = 5"
proof -
  have h1: "GetOffsetVel planner_ex \<noteq> vector3d_zero"
    by (simp add: planner_ex_def planner_idle_def vector3d_zero_def)
  have h2: "is_zero_exact (GetSemiMajorAxis (ComputeOrbit (ship player_degenerate)))"
    by (simp add: is_zero_exact_def player_degenerate_def ship_ex_def orbit_degenerate_def)
  show ?thesis
    using h1 h2 maneuver_degenerate_orbit [OF h1 h2, of frames_ex]
    by (simp add: double_to_int_def planner_ex_def planner_idle_def)
qed

text \<open>
  C6. For a vehicle in a rotating frame the computation goes to the non-rotating frame of
  that frame and takes the mass of the system body of the frame it arrived at; for a
  vehicle in a non-rotating frame it takes the mass of the system body of that frame
  itself. That mass is the parent mass given to the orbit for both the time of flight and
  the orbital velocity.
\<close>

theorem maneuver_parent_mass:
  assumes "GetOffsetVel planner \<noteq> vector3d_zero"
    and "GetSemiMajorAxis (ComputeOrbit (ship p)) \<noteq> 0"
    and "orbit = ComputeOrbit (ship p)"
    and "frame = frames (GetFrame (ship p))"
  shows "(IsRotFrame frame \<and> GetSystemBody (frames (GetNonRotFrame frame)) = Some sb \<longrightarrow>
            GetManeuverVelocity frames planner p =
              vector3d_minus (GetVel planner)
                (OrbitalVelocityAtTime orbit (GetMass sb)
                   (OrbitalTimeAtPos orbit (GetPosition planner) (GetMass sb))))
         \<and> (\<not> IsRotFrame frame \<and> GetSystemBody frame = Some sb \<longrightarrow>
            GetManeuverVelocity frames planner p =
              vector3d_minus (GetVel planner)
                (OrbitalVelocityAtTime orbit (GetMass sb)
                   (OrbitalTimeAtPos orbit (GetPosition planner) (GetMass sb))))"
proof -
  have ne: "\<not> ExactlyEqual (GetOffsetVel planner) vector3d_zero"
    using assms(1) by (simp add: ExactlyEqual_iff)
  show ?thesis
    using ne assms(2) assms(3) assms(4)
    by (simp add: GetManeuverVelocity_def Let_def is_zero_exact_def)
qed

theorem maneuver_parent_mass_witness:
  "IsRotFrame (frames_ex (GetFrame (ship player_ex)))
   \<and> GetSystemBody (frames_ex (GetNonRotFrame (frames_ex (GetFrame (ship player_ex)))))
       = Some \<lparr>GetMass = 4\<rparr>
   \<and> GetManeuverVelocity frames_ex planner_ex player_ex =
       vector3d_minus (GetVel planner_ex)
         (OrbitalVelocityAtTime orbit_ex 4 (OrbitalTimeAtPos orbit_ex (GetPosition planner_ex) 4))
   \<and> \<not> IsRotFrame (frames_ex (GetFrame (ship player_nonrot)))
   \<and> GetSystemBody (frames_ex (GetFrame (ship player_nonrot))) = Some \<lparr>GetMass = 4\<rparr>
   \<and> GetManeuverVelocity frames_ex planner_ex player_nonrot =
       vector3d_minus (GetVel planner_ex)
         (OrbitalVelocityAtTime orbit_ex 4 (OrbitalTimeAtPos orbit_ex (GetPosition planner_ex) 4))"
proof -
  have h1: "GetOffsetVel planner_ex \<noteq> vector3d_zero"
    by (simp add: planner_ex_def planner_idle_def vector3d_zero_def)
  have h2: "GetSemiMajorAxis (ComputeOrbit (ship player_ex)) \<noteq> 0"
    by (simp add: player_ex_def ship_ex_def orbit_ex_def)
  have h3: "orbit_ex = ComputeOrbit (ship player_ex)"
    by (simp add: player_ex_def ship_ex_def)
  have k2: "GetSemiMajorAxis (ComputeOrbit (ship player_nonrot)) \<noteq> 0"
    by (simp add: player_nonrot_def player_ex_def ship_ex_def orbit_ex_def)
  have k3: "orbit_ex = ComputeOrbit (ship player_nonrot)"
    by (simp add: player_nonrot_def player_ex_def ship_ex_def)
  have r: "IsRotFrame (frames_ex (GetFrame (ship player_ex)))
           \<and> GetSystemBody (frames_ex (GetNonRotFrame (frames_ex (GetFrame (ship player_ex)))))
               = Some \<lparr>GetMass = 4\<rparr>"
    by (simp add: frames_ex_def player_ex_def ship_ex_def)
  have n: "\<not> IsRotFrame (frames_ex (GetFrame (ship player_nonrot)))
           \<and> GetSystemBody (frames_ex (GetFrame (ship player_nonrot))) = Some \<lparr>GetMass = 4\<rparr>"
    by (simp add: frames_ex_def player_nonrot_def player_ex_def ship_ex_def)
  show ?thesis
    using r n
      maneuver_parent_mass [OF h1 h2 h3 refl, of frames_ex "\<lparr>GetMass = 4\<rparr>"]
      maneuver_parent_mass [OF h1 k2 k3 refl, of frames_ex "\<lparr>GetMass = 4\<rparr>"]
    by simp
qed

text \<open>
  C7. Initiation in a state other than IDLE, and abort in a state other than WARMUP, end in
  the precondition violation, which reaches the caller of the player's function. Abort in
  WARMUP returns a player whose session is IDLE and whose frame is the one it had.
\<close>

theorem hyperjump_preconditions:
  "(currentState (m_hyperspace (ship p)) \<noteq> IDLE \<longrightarrow>
      InitiateHyperjumpTo dest warmup_time duration snds checks p = Inl PreconditionViolation)
   \<and> (currentState (m_hyperspace (ship p)) \<noteq> WARMUP \<longrightarrow>
      AbortHyperjump p = Inl PreconditionViolation)
   \<and> (currentState (m_hyperspace (ship p)) = WARMUP \<longrightarrow>
      (\<exists>p'. AbortHyperjump p = Inr p'
         \<and> currentState (m_hyperspace (ship p')) = IDLE
         \<and> GetFrame (ship p') = GetFrame (ship p)))"
  by (simp add: InitiateHyperjumpTo_def Ship_InitiateHyperjumpTo_def AbortHyperjump_def
      Ship_AbortHyperjump_def emit_def Let_def)

theorem hyperjump_preconditions_witness:
  "currentState (m_hyperspace (ship (player_in WARMUP))) \<noteq> IDLE
   \<and> InitiateHyperjumpTo 1 5 10 sounds_ex [] (player_in WARMUP) = Inl PreconditionViolation
   \<and> currentState (m_hyperspace (ship (player_in COMMITTED))) \<noteq> IDLE
   \<and> InitiateHyperjumpTo 1 5 10 sounds_ex [] (player_in COMMITTED) = Inl PreconditionViolation
   \<and> currentState (m_hyperspace (ship (player_in COMMITTED))) \<noteq> WARMUP
   \<and> AbortHyperjump (player_in COMMITTED) = Inl PreconditionViolation
   \<and> currentState (m_hyperspace (ship (player_in WARMUP))) = WARMUP
   \<and> (\<exists>p'. AbortHyperjump (player_in WARMUP) = Inr p'
         \<and> currentState (m_hyperspace (ship p')) = IDLE
         \<and> GetFrame (ship p') = 2)"
proof -
  have w: "currentState (m_hyperspace (ship (player_in WARMUP))) = WARMUP"
    by (simp add: player_in_def)
  have c: "currentState (m_hyperspace (ship (player_in COMMITTED))) = COMMITTED"
    by (simp add: player_in_def)
  have f: "GetFrame (ship (player_in WARMUP)) = 2"
    by (simp add: player_in_def ship_ex_def)
  show ?thesis
    using w c f
      hyperjump_preconditions [of "player_in WARMUP" 1 5 10 sounds_ex "[]"]
      hyperjump_preconditions [of "player_in COMMITTED" 1 5 10 sounds_ex "[]"]
    by simp
qed

text \<open>
  C8. After \<open>NotifyRemoved\<close> of a body, none of the navigation, combat and set-speed
  targets of the player refers to that body. (The hyperspace cloud that a removed ship
  leaves behind is another object than the ship.)
\<close>

theorem NotifyRemoved_invalidates:
  assumes "\<not> (IsType b SHIP \<and> GetHyperspaceCloud b = Some (addr b))"
  shows "GetNavTarget (NotifyRemoved Ship_NotifyRemoved b p) \<noteq> Some (addr b)
         \<and> GetCombatTarget (NotifyRemoved Ship_NotifyRemoved b p) \<noteq> Some (addr b)
         \<and> GetSetSpeedTarget (NotifyRemoved Ship_NotifyRemoved b p) \<noteq> Some (addr b)"
  using assms by (auto simp add: NotifyRemoved_def target_defs Let_def)

theorem NotifyRemoved_invalidates_witness:
  "\<not> (IsType body_ship SHIP \<and> GetHyperspaceCloud body_ship = Some (addr body_ship))
   \<and> GetCombatTarget player_combat = Some (addr body_ship)
   \<and> GetSetSpeedTarget player_combat = Some (addr body_ship)
   \<and> GetNavTarget (NotifyRemoved (\<lambda>b s. s) body_ship player_combat) \<noteq> Some (addr body_ship)
   \<and> GetCombatTarget (NotifyRemoved (\<lambda>b s. s) body_ship player_combat) \<noteq> Some (addr body_ship)
   \<and> GetSetSpeedTarget (NotifyRemoved (\<lambda>b s. s) body_ship player_combat) \<noteq> Some (addr body_ship)"
proof -
  have h: "\<not> (IsType body_ship SHIP \<and> GetHyperspaceCloud body_ship = Some (addr body_ship))"
    by (simp add: body_ship_def)
  have t: "GetCombatTarget player_combat = Some (addr body_ship)
           \<and> GetSetSpeedTarget player_combat = Some (addr body_ship)"
    by (simp add: player_combat_def player_ex_def body_ship_def target_defs)
  show ?thesis
    using h t NotifyRemoved_invalidates [OF h, of "\<lambda>b s. s" player_combat] by simp
qed

text \<open>
  In the sources, entering hyperspace clears the three targets, sets the flight control
  state to manual and puts the thrusters to neutral.
\<close>

lemma OnEnterHyperspace_clears:
  "GetNavTarget (OnEnterHyperspace p) = None
   \<and> GetCombatTarget (OnEnterHyperspace p) = None
   \<and> GetSetSpeedTarget (OnEnterHyperspace p) = None
   \<and> m_flightControlState (m_controller (OnEnterHyperspace p)) = CONTROL_MANUAL
   \<and> m_thrusters (ship (OnEnterHyperspace p)) = vector3d_zero
   \<and> m_angThrusters (ship (OnEnterHyperspace p)) = vector3d_zero"
  by (simp add: OnEnterHyperspace_def target_defs Let_def)

text \<open>
  The hook \<open>OnEnterSystem\<close> sets the flight control state to manual and asks the sector
  view to reset its hyperspace target; the ship and the three targets are as before.
\<close>

lemma OnEnterSystem_preserves:
  "m_flightControlState (m_controller (OnEnterSystem p)) = CONTROL_MANUAL
   \<and> effects (OnEnterSystem p) = effects p @ [ResetHyperspaceTarget]
   \<and> ship (OnEnterSystem p) = ship p
   \<and> GetNavTarget (OnEnterSystem p) = GetNavTarget p
   \<and> GetCombatTarget (OnEnterSystem p) = GetCombatTarget p
   \<and> GetSetSpeedTarget (OnEnterSystem p) = GetSetSpeedTarget p"
  by (simp add: OnEnterSystem_def target_defs Let_def)

lemma initiate_succeeds:
  assumes "currentState (m_hyperspace (ship p)) = IDLE" and "run_checks checks (ship p) = None"
  shows "\<exists>p'. InitiateHyperjumpTo dest warmup_time duration snds checks p = Inr (HYPERJUMP_OK, p')"
  using assms by (simp add: InitiateHyperjumpTo_def Ship_InitiateHyperjumpTo_def Let_def)

lemma initiate_success_state:
  assumes "InitiateHyperjumpTo dest warmup_time duration snds checks p = Inr (HYPERJUMP_OK, p')"
  shows "currentState (m_hyperspace (ship p')) = WARMUP
         \<and> warmupDuration (m_hyperspace (ship p')) = warmup_time
         \<and> GetNavTarget p' = None \<and> GetCombatTarget p' = None \<and> GetSetSpeedTarget p' = None
         \<and> m_thrusters (ship p') = vector3d_zero \<and> m_angThrusters (ship p') = vector3d_zero"
  using assms
  by (auto simp add: InitiateHyperjumpTo_def Ship_InitiateHyperjumpTo_def target_defs Let_def
      split: if_splits option.splits)

text \<open>
  C2. An initiation from IDLE whose eligibility checks all pass succeeds; and when an
  initiation succeeds, then in the state that the initiation itself returns the session is
  WARMUP with the warm-up duration recorded, the navigation, combat and set-speed targets
  are cleared, and the thrusters are neutral.
\<close>

theorem initiation_clears_targets:
  "(currentState (m_hyperspace (ship p)) = IDLE \<and> run_checks checks (ship p) = None \<longrightarrow>
      (\<exists>q. InitiateHyperjumpTo dest warmup_time duration snds checks p = Inr (HYPERJUMP_OK, q)))
   \<and> (InitiateHyperjumpTo dest warmup_time duration snds checks p = Inr (HYPERJUMP_OK, p') \<longrightarrow>
        currentState (m_hyperspace (ship p')) = WARMUP
        \<and> warmupDuration (m_hyperspace (ship p')) = warmup_time
        \<and> GetNavTarget p' = None \<and> GetCombatTarget p' = None \<and> GetSetSpeedTarget p' = None
        \<and> m_thrusters (ship p') = vector3d_zero \<and> m_angThrusters (ship p') = vector3d_zero)"
  using initiate_succeeds initiate_success_state by blast

theorem initiation_clears_targets_witness:
  "currentState (m_hyperspace (ship player_ex)) = IDLE
   \<and> run_checks [] (ship player_ex) = None
   \<and> GetNavTarget player_ex = Some 3
   \<and> GetCombatTarget player_ex = Some 4
   \<and> GetSetSpeedTarget player_ex = Some 4
   \<and> m_thrusters (ship player_ex) \<noteq> vector3d_zero
   \<and> (\<exists>q. InitiateHyperjumpTo 1 5 10 sounds_ex [] player_ex = Inr (HYPERJUMP_OK, q)
         \<and> currentState (m_hyperspace (ship q)) = WARMUP
         \<and> warmupDuration (m_hyperspace (ship q)) = 5
         \<and> GetNavTarget q = None \<and> GetCombatTarget q = None \<and> GetSetSpeedTarget q = None
         \<and> m_thrusters (ship q) = vector3d_zero \<and> m_angThrusters (ship q) = vector3d_zero)"
proof -
  have h: "currentState (m_hyperspace (ship player_ex)) = IDLE
           \<and> run_checks [] (ship player_ex) = None"
    by (simp add: player_ex_def ship_ex_def)
  have t: "GetNavTarget player_ex = Some 3 \<and> GetCombatTarget player_ex = Some 4
           \<and> GetSetSpeedTarget player_ex = Some 4
           \<and> m_thrusters (ship player_ex) \<noteq> vector3d_zero"
    by (simp add: target_defs player_ex_def ship_ex_def vector3d_zero_def)
  from h initiation_clears_targets [of player_ex "[]" 1 5 10 sounds_ex]
  obtain q where q: "InitiateHyperjumpTo 1 5 10 sounds_ex [] player_ex = Inr (HYPERJUMP_OK, q)"
    by blast
  show ?thesis
    using h t q initiation_clears_targets [of player_ex "[]" 1 5 10 sounds_ex q] by blast
qed

text \<open>
  C3. On arrival, the step from ARRIVING, the session is IDLE, the vehicle is in the root
  frame of the destination system, and its navigation, combat and set-speed targets are
  cleared.
\<close>

theorem arrival_reattaches_and_clears:
  assumes "currentState (m_hyperspace (ship p)) = ARRIVING"
  shows "\<exists>p'. Arrival destinationRootFrame p = Some p'
           \<and> currentState (m_hyperspace (ship p')) = IDLE
           \<and> GetFrame (ship p') = destinationRootFrame
           \<and> GetNavTarget p' = None
           \<and> GetCombatTarget p' = None
           \<and> GetSetSpeedTarget p' = None"
  using assms by (simp add: Arrival_def Let_def OnEnterSystem_preserves) (simp add: target_defs)

theorem arrival_reattaches_and_clears_witness:
  "currentState (m_hyperspace (ship (player_in ARRIVING))) = ARRIVING
   \<and> GetFrame (ship (player_in ARRIVING)) = 2
   \<and> GetNavTarget (player_in ARRIVING) = Some 3
   \<and> (\<exists>p'. Arrival 0 (player_in ARRIVING) = Some p'
         \<and> currentState (m_hyperspace (ship p')) = IDLE
         \<and> GetFrame (ship p') = 0
         \<and> GetNavTarget p' = None
         \<and> GetCombatTarget p' = None
         \<and> GetSetSpeedTarget p' = None)"
proof -
  have h: "currentState (m_hyperspace (ship (player_in ARRIVING))) = ARRIVING"
    by (simp add: player_in_def)
  have t: "GetFrame (ship (player_in ARRIVING)) = 2 \<and> GetNavTarget (player_in ARRIVING) = Some 3"
    by (simp add: player_in_def player_ex_def ship_ex_def GetNavTarget_def)
  show ?thesis
    using h t arrival_reattaches_and_clears [OF h, of 0] by simp
qed

lemma Length_nonneg: "0 \<le> Length a"
  by (simp add: Length_def)

text \<open>
  C9. \<open>GetAltitudeRelTo\<close> never returns a negative value: for a terrain body the distance
  to the centre minus the terrain height (taken as 0 beyond three times the maximal feature
  radius) is raised to 0 when it is negative, and for any other body, or none, the distance
  to the centre is returned.
\<close>

theorem altitude_not_negative:
  "0 \<le> l_body_get_altitude_rel_to GetPositionRelTo other"
  by (simp add: l_body_get_altitude_rel_to_def Let_def Length_nonneg split: option.splits)

text \<open>
  C10. No body is more important than itself, whatever the comparison of distinct bodies
  is.
\<close>

theorem not_more_important_than_itself:
  "l_body_is_more_important_than first_body_is_more_important_than b b = False"
  by (simp add: l_body_is_more_important_than_def)

end
